theory Spec2Isabelle
  imports Main "HOL-Library.Sublist"
begin

section \<open>JavaScript values\<close>

text \<open>
  The models receive and return plain JavaScript values: query-string parameters are
  strings (arrays and objects when the query string nests them) or absent, the tests pass
  numbers and booleans, and the store returns rows as objects whose columns are strings,
  numbers or \<open>null\<close>. Numbers are modelled as integers (salaries, employee counts, ids
  and positional indices are integers in this program, of a size that JavaScript holds
  exactly and prints digit by digit); \<open>NaN\<close> only arises as the result of
  \<open>parseInt\<close> and is modelled there as \<open>None\<close>. An object is the list of its
  properties in insertion order.
\<close>

datatype jsval =
    Undefined
  | Null
  | JBool bool
  | JNum int
  | JStr string
  | JArr "jsval list"
  | JObj "(string \<times> jsval) list"

type_synonym obj = "(string \<times> jsval) list"

text \<open>ToBoolean: what \<^verbatim>\<open>if (v)\<close>, \<^verbatim>\<open>!v\<close> and \<^verbatim>\<open>v && w\<close> test.\<close>

fun truthy :: "jsval \<Rightarrow> bool" where
  "truthy Undefined = False"
| "truthy Null = False"
| "truthy (JBool b) = b"
| "truthy (JNum n) = (n \<noteq> 0)"
| "truthy (JStr s) = (s \<noteq> [])"
| "truthy (JArr xs) = True"
| "truthy (JObj ps) = True"

text \<open>Decimal rendering of a number, as string concatenation and template literals do it.\<close>

fun show_nat :: "nat \<Rightarrow> string" where
  "show_nat n =
     (if n < 10 then [''0123456789'' ! n]
      else show_nat (n div 10) @ [''0123456789'' ! (n mod 10)])"

declare show_nat.simps [simp del]

definition show_int :: "int \<Rightarrow> string" where
  "show_int i = (if i < 0 then ''-'' @ show_nat (nat (- i)) else show_nat (nat i))"

text \<open>\<^verbatim>\<open>Array.prototype.join\<close> on an array of strings.\<close>

fun join :: "string \<Rightarrow> string list \<Rightarrow> string" where
  "join sep [] = []"
| "join sep [x] = x"
| "join sep (x # y # ys) = x @ sep @ join sep (y # ys)"

text \<open>
  ToString: what a template literal \<^verbatim>\<open>${v}\<close> interpolates. An array is its elements
  joined by commas, with \<open>undefined\<close> and \<open>null\<close> elements left empty.
\<close>

fun toString :: "jsval \<Rightarrow> string" where
  "toString Undefined = ''undefined''"
| "toString Null = ''null''"
| "toString (JBool b) = (if b then ''true'' else ''false'')"
| "toString (JNum n) = show_int n"
| "toString (JStr s) = s"
| "toString (JArr xs) =
     join '','' (map (\<lambda>x. if x = Undefined \<or> x = Null then [] else toString x) xs)"
| "toString (JObj ps) = ''[object Object]''"

text \<open>Reading a property; one that is not there gives \<open>undefined\<close>.\<close>

definition js_get :: "obj \<Rightarrow> string \<Rightarrow> jsval" where
  "js_get ob k = (case map_of ob k of None \<Rightarrow> Undefined | Some v \<Rightarrow> v)"

subsection \<open>parseInt and numeric comparison\<close>

text \<open>
  \<^verbatim>\<open>parseInt(v)\<close> with no radix: the argument is converted to a string, leading white
  space is dropped, a sign is read, the prefix \<^verbatim>\<open>0x\<close> selects radix 16, and the
  longest run of digits of the radix is the value; with no digit the result is \<open>NaN\<close>
  (\<open>None\<close>). Only the white space of ASCII is modelled.
\<close>

definition is_js_space :: "char \<Rightarrow> bool" where
  "is_js_space c = (c \<in> set [CHR 0x09, CHR 0x0A, CHR 0x0B, CHR 0x0C, CHR 0x0D, CHR 0x20])"

definition digit_val :: "char \<Rightarrow> nat option" where
  "digit_val c =
     (let n = (of_char c :: nat)
      in if 48 \<le> n \<and> n \<le> 57 then Some (n - 48)
         else if 97 \<le> n \<and> n \<le> 102 then Some (n - 87)
         else if 65 \<le> n \<and> n \<le> 70 then Some (n - 55)
         else None)"

definition digit_of :: "nat \<Rightarrow> char \<Rightarrow> nat option" where
  "digit_of R c = (case digit_val c of None \<Rightarrow> None | Some v \<Rightarrow> if v < R then Some v else None)"

definition parseInt_string :: "string \<Rightarrow> int option" where
  "parseInt_string inputString =
     (let S = dropWhile is_js_space inputString;
          sign = (if take 1 S = ''-'' then - 1 else 1 :: int);
          S = (if take 1 S = ''+'' \<or> take 1 S = ''-'' then drop 1 S else S);
          (R, S) = (if take 2 S = ''0x'' \<or> take 2 S = ''0X'' then (16, drop 2 S) else (10, S));
          Z = takeWhile (\<lambda>c. digit_of R c \<noteq> None) S
      in if Z = [] then None
         else Some (sign * int (foldl (\<lambda>acc c. acc * R + (case digit_of R c of None \<Rightarrow> 0 | Some v \<Rightarrow> v)) 0 Z)))"

definition parseInt :: "jsval \<Rightarrow> int option" where
  "parseInt v = parseInt_string (toString v)"

text \<open>\<^verbatim>\<open>a >= b\<close> on two numbers: false as soon as one of them is \<open>NaN\<close>.\<close>

definition js_ge :: "int option \<Rightarrow> int option \<Rightarrow> bool" where
  "js_ge a b = (case a of None \<Rightarrow> False | Some x \<Rightarrow> (case b of None \<Rightarrow> False | Some y \<Rightarrow> y \<le> x))"

section \<open>Errors and the store client\<close>

text \<open>
  The error classes of \<^verbatim>\<open>expressError\<close> that the models throw, the runtime's
  \<open>ReferenceError\<close>, the error of the partial-update helper, and an opaque failure of the
  store itself (\<^verbatim>\<open>db.query\<close> rejecting), which every model lets through unchanged.
\<close>

datatype error =
    BadRequestError string
  | NotFoundError string
  | ExpressError string nat
  | ReferenceError string
  | InvalidUpdateError string
  | StoreError string

text \<open>
  \<^verbatim>\<open>db.query(text, params)\<close> is the external query-execution interface. It is a
  parameter of every model: an engine takes the statement and the store's state and gives
  the rows (or a failure) and the new state. The client keeps a log of the statements it
  was handed, so that "no statement was issued" can be said.
\<close>

type_synonym row = obj
type_synonym statement = "string \<times> jsval list"
type_synonym 's engine = "statement \<Rightarrow> 's \<Rightarrow> (error + row list) \<times> 's"

record 's db =
  store :: 's
  issued :: "statement list"

definition db_query :: "'s engine \<Rightarrow> string \<Rightarrow> jsval list \<Rightarrow> 's db \<Rightarrow> (error + row list) \<times> 's db" where
  "db_query eng text params d =
     (case eng (text, params) (store d) of
        (res, s') \<Rightarrow> (res, \<lparr>store = s', issued = issued d @ [(text, params)]\<rparr>))"

text \<open>
  \<^verbatim>\<open>const x = await m; k\<close>: a rejected promise ends the model with that error, a
  fulfilled one continues with its value.
\<close>

definition await :: "(error + 'a) \<times> 's db \<Rightarrow> ('a \<Rightarrow> 's db \<Rightarrow> (error + 'b) \<times> 's db) \<Rightarrow> (error + 'b) \<times> 's db" where
  "await m k = (case m of (Inl e, d) \<Rightarrow> (Inl e, d) | (Inr x, d) \<Rightarrow> k x d)"

text \<open>\<^verbatim>\<open>result.rows[0]\<close>: the first row, or \<open>undefined\<close> when there is none.\<close>

definition rows0 :: "row list \<Rightarrow> jsval" where
  "rows0 rows = (case rows of [] \<Rightarrow> Undefined | r # _ \<Rightarrow> JObj r)"

text \<open>
  An engine for worked examples: its state is the list of answers it has been given to
  hand out, one per statement, in turn; with none left it returns no rows.
\<close>

fun replay :: "(error + row list) list engine" where
  "replay st [] = (Inr [], [])"
| "replay st (r # rs) = (r, rs)"

text \<open>An object without the property \<open>k\<close>.\<close>

definition js_delete :: "string \<Rightarrow> obj \<Rightarrow> obj" where
  "js_delete k ob = filter (\<lambda>p. fst p \<noteq> k) ob"

section \<open>Job.findAll\<close>

subsection \<open>The model of \<^verbatim>\<open>src/unnamed/part_001\<close>\<close>

text \<open>
  Lines 56-73: the conditions and positional parameters accumulated from
  \<^verbatim>\<open>queryParams\<close>. Each \<^verbatim>\<open>push\<close> is a rebinding of the array.
\<close>

definition Job_findAll_filter :: "obj \<Rightarrow> string list \<times> jsval list" where
  "Job_findAll_filter queryParams =
     (let conditions = [];
          values = [];
          (conditions, values) =
            (if truthy (js_get queryParams ''title'')
             then (let values = values @ [JStr (''%'' @ toString (js_get queryParams ''title'') @ ''%'')]
                   in (conditions @ [''title ILIKE $'' @ show_nat (length values)], values))
             else (conditions, values));
          (conditions, values) =
            (if truthy (js_get queryParams ''minSalary'')
             then (let values = values @ [js_get queryParams ''minSalary'']
                   in (conditions @ [''salary >= $'' @ show_nat (length values)], values))
             else (conditions, values));
          conditions =
            (if truthy (js_get queryParams ''equity'') \<and> js_get queryParams ''equity'' = JStr ''true''
             then conditions @ [''equity > 0'']
             else conditions)
      in (conditions, values))"

text \<open>Lines 54 and 75-80: the statement text around the conditions.\<close>

definition Job_findAll_select :: string where
  "Job_findAll_select = ''SELECT id, title, salary, equity, company_handle FROM jobs''"

definition Job_findAll_query :: "obj \<Rightarrow> statement" where
  "Job_findAll_query queryParams =
     (let query = Job_findAll_select;
          (conditions, values) = Job_findAll_filter queryParams;
          query = (if length conditions > 0
                   then query @ '' WHERE '' @ join '' AND '' conditions
                   else query);
          query = query @ '' ORDER BY title''
      in (query, values))"

definition Job_findAll :: "'s engine \<Rightarrow> obj \<Rightarrow> 's db \<Rightarrow> (error + row list) \<times> 's db" where
  "Job_findAll eng queryParams d =
     (case Job_findAll_query queryParams of (query, values) \<Rightarrow> db_query eng query values d)"

subsection \<open>The model of \<^verbatim>\<open>src/unnamed/part_000\<close>\<close>

text \<open>
  Lines 45-71. This variant reads the flag under the name \<^verbatim>\<open>hasEquity\<close> and has
  an \<^verbatim>\<open>else\<close> branch for the flag being falsy.
\<close>

definition Job_findAll_filter_part000 :: "obj \<Rightarrow> string list \<times> jsval list" where
  "Job_findAll_filter_part000 queryParams =
     (let conditions = [];
          values = [];
          (conditions, values) =
            (if truthy (js_get queryParams ''title'')
             then (let values = values @ [JStr (''%'' @ toString (js_get queryParams ''title'') @ ''%'')]
                   in (conditions @ [''title ILIKE $'' @ show_nat (length values)], values))
             else (conditions, values));
          (conditions, values) =
            (if truthy (js_get queryParams ''minSalary'')
             then (let values = values @ [js_get queryParams ''minSalary'']
                   in (conditions @ [''salary >= $'' @ show_nat (length values)], values))
             else (conditions, values));
          conditions =
            (if truthy (js_get queryParams ''hasEquity'')
             then (if js_get queryParams ''hasEquity'' = JStr ''true''
                   then conditions @ [''equity > 0'']
                   else if js_get queryParams ''hasEquity'' = JStr ''false''
                   then conditions @ [''equity = 0'']
                   else conditions)
             else conditions @ [''equity = 0''])
      in (conditions, values))"

definition Job_findAll_select_part000 :: string where
  "Job_findAll_select_part000 =
     ''SELECT id, title, salary, equity, company_handle\<newline>'' @
     ''           FROM jobs''"

definition Job_findAll_query_part000 :: "obj \<Rightarrow> statement" where
  "Job_findAll_query_part000 queryParams =
     (let query = Job_findAll_select_part000;
          (conditions, values) = Job_findAll_filter_part000 queryParams;
          query = (if length conditions > 0
                   then query @ '' WHERE '' @ join '' AND '' conditions
                   else query);
          query = query @ '' ORDER BY title''
      in (query, values))"

definition Job_findAll_part000 :: "'s engine \<Rightarrow> obj \<Rightarrow> 's db \<Rightarrow> (error + row list) \<times> 's db" where
  "Job_findAll_part000 eng queryParams d =
     (case Job_findAll_query_part000 queryParams of (query, values) \<Rightarrow> db_query eng query values d)"

section \<open>The partial-update helper\<close>

text \<open>
  Modelled from the spec: \<^verbatim>\<open>sqlForPartialUpdate\<close> of \<^verbatim>\<open>helpers/sql\<close>, which
  the models import, is not among the sources. Sections 4.1 and 4.2 of the specification
  describe it: a logical field name maps to its override, or to itself; an empty field
  mapping fails with the "no data" error; otherwise each field, in insertion order, gives
  \<^verbatim>\<open><mappedColumn> = $<positional index>\<close> with indices from 1, the fragments are
  joined by commas, and the values are returned in the same order.
\<close>

definition mapField :: "string \<Rightarrow> (string \<times> string) list \<Rightarrow> string" where
  "mapField logicalName overrides =
     (case map_of overrides logicalName of None \<Rightarrow> logicalName | Some physicalName \<Rightarrow> physicalName)"

text \<open>
  Modelled from the spec: the builder of section 4.2, under the name by which the models
  call it.
\<close>

definition sqlForPartialUpdate :: "obj \<Rightarrow> (string \<times> string) list \<Rightarrow> error + string \<times> jsval list" where
  "sqlForPartialUpdate fieldMapping overrides =
     (if fieldMapping = [] then Inl (InvalidUpdateError ''no data'')
      else Inr (join '', ''
                  (map (\<lambda>(i, k). mapField k overrides @ '' = $'' @ show_nat (i + 1))
                       (enumerate 0 (map fst fieldMapping))),
                map snd fieldMapping))"

section \<open>Job.create, Job.get and Job.update\<close>

subsection \<open>The model of \<^verbatim>\<open>src/unnamed/part_001\<close>\<close>





text \<open>Lines 94-129: the joined rows are folded into one job with its companies.\<close>

definition Job_get_sql :: string where
  "Job_get_sql =
     ''SELECT j.id, j.title, j.salary, j.equity, c.handle, c.name, c.description, c.num_employees, c.logo_url\<newline>'' @
     ''           FROM jobs as j\<newline>'' @
     ''           LEFT JOIN companies as c\<newline>'' @
     ''           ON j.company_handle = c.handle\<newline>'' @
     ''           WHERE id = $1''"

text \<open>The object literal of lines 118-124, pushed for a row.\<close>

definition Job_get_company :: "row \<Rightarrow> jsval" where
  "Job_get_company row =
     JObj [(''handle'', js_get row ''handle''),
           (''name'', js_get row ''name''),
           (''description'', js_get row ''description''),
           (''numEmployees'', js_get row ''num_employees''),
           (''logoUrl'', js_get row ''logo_url'')]"

text \<open>
  The \<^verbatim>\<open>forEach\<close> of lines 116-126; the second argument is \<^verbatim>\<open>job.companies\<close>
  as pushed to so far.
\<close>

fun Job_get_forEach :: "row list \<Rightarrow> jsval list \<Rightarrow> jsval list" where
  "Job_get_forEach [] companies = companies"
| "Job_get_forEach (row # rows) companies =
     (if truthy (js_get row ''handle'')
      then Job_get_forEach rows (companies @ [Job_get_company row])
      else Job_get_forEach rows companies)"

text \<open>The object of lines 108-114, with its \<^verbatim>\<open>companies\<close> as they end up.\<close>

definition Job_get_job :: "row \<Rightarrow> jsval list \<Rightarrow> jsval" where
  "Job_get_job row0 companies =
     JObj [(''id'', js_get row0 ''id''),
           (''title'', js_get row0 ''title''),
           (''salary'', js_get row0 ''salary''),
           (''equity'', js_get row0 ''equity''),
           (''companies'', JArr companies)]"

definition Job_get :: "'s engine \<Rightarrow> jsval \<Rightarrow> 's db \<Rightarrow> (error + jsval) \<times> 's db" where
  "Job_get eng idData d =
     await (db_query eng Job_get_sql [idData] d)
       (\<lambda>jobRes d.
          if length jobRes = 0
          then (Inl (NotFoundError (''No job found: '' @ toString idData)), d)
          else (Inr (Job_get_job (hd jobRes) (Job_get_forEach jobRes [])), d))"

text \<open>Lines 143-161 (lines 119-137 of \<^verbatim>\<open>src/unnamed/part_000\<close> are the same).\<close>

definition Job_update_sql :: "string \<Rightarrow> string \<Rightarrow> string" where
  "Job_update_sql setCols idVarIdx =
     ''UPDATE jobs \<newline>'' @
     ''                      SET '' @ setCols @ '' \<newline>'' @
     ''                      WHERE id = '' @ idVarIdx @ '' \<newline>'' @
     ''                      RETURNING id, title, salary, equity, company_handle''"

definition Job_update_jsToSql :: "(string \<times> string) list" where
  "Job_update_jsToSql = [(''title'', ''title''), (''salary'', ''salary''), (''equity'', ''equity'')]"

definition Job_update :: "'s engine \<Rightarrow> jsval \<Rightarrow> obj \<Rightarrow> 's db \<Rightarrow> (error + jsval) \<times> 's db" where
  "Job_update eng jid data d =
     (case sqlForPartialUpdate data Job_update_jsToSql of
        Inl e \<Rightarrow> (Inl e, d)
      | Inr (setCols, values) \<Rightarrow>
          (let idVarIdx = ''$'' @ show_nat (length values + 1);
               querySql = Job_update_sql setCols idVarIdx
           in await (db_query eng querySql (values @ [jid]) d)
                (\<lambda>result d.
                   let company = rows0 result
                   in if \<not> truthy company
                      then (Inl (NotFoundError (''No company: '' @ toString jid)), d)
                      else (Inr company, d))))"

subsection \<open>The model of \<^verbatim>\<open>src/unnamed/part_000\<close>\<close>


text \<open>
  Lines 92-105. The message of line 102 interpolates \<^verbatim>\<open>handle\<close>, so the identifier
  is resolved before the error object is built. A binding holds a value, or something
  whose content does not matter here (a function, a class, a module object). The scope at
  line 102 is the parameter, the two locals, the bindings of the module's top level and
  those of the CommonJS wrapper; the global object of the runtime has no property of
  that name.
\<close>

datatype binding = Value jsval | Opaque

definition Job_get_part000_sql :: string where
  "Job_get_part000_sql =
     ''SELECT id, title, salary, equity, company_handle\<newline>'' @
     ''           FROM jobs\<newline>'' @
     ''           WHERE id = $1''"

definition Job_get_part000_scope :: "jsval \<Rightarrow> jsval \<Rightarrow> (string \<times> binding) list" where
  "Job_get_part000_scope jid job =
     [(''id'', Value jid), (''jobRes'', Opaque), (''job'', Value job),
      (''db'', Opaque), (''BadRequestError'', Opaque), (''NotFoundError'', Opaque),
      (''ExpressError'', Opaque), (''sqlForPartialUpdate'', Opaque), (''Job'', Opaque),
      (''exports'', Opaque), (''require'', Opaque), (''module'', Opaque),
      (''__filename'', Opaque), (''__dirname'', Opaque)]"

definition resolve :: "(string \<times> binding) list \<Rightarrow> string \<Rightarrow> error + binding" where
  "resolve scope x =
     (case map_of scope x of
        None \<Rightarrow> Inl (ReferenceError (x @ '' is not defined''))
      | Some b \<Rightarrow> Inr b)"

fun binding_toString :: "binding \<Rightarrow> string" where
  "binding_toString (Value v) = toString v"
| "binding_toString Opaque = ''[object Object]''"

definition Job_get_part000 :: "'s engine \<Rightarrow> jsval \<Rightarrow> 's db \<Rightarrow> (error + jsval) \<times> 's db" where
  "Job_get_part000 eng jid d =
     await (db_query eng Job_get_part000_sql [jid] d)
       (\<lambda>jobRes d.
          let job = rows0 jobRes
          in if \<not> truthy job
             then (case resolve (Job_get_part000_scope jid job) ''handle'' of
                     Inl e \<Rightarrow> (Inl e, d)
                   | Inr b \<Rightarrow> (Inl (NotFoundError (''No job: '' @ binding_toString b)), d))
             else (Inr job, d))"

section \<open>Company\<close>

text \<open>
  The model of the class \<^verbatim>\<open>Company\<close>, lines 316-526 of
  \<^verbatim>\<open>src/models/job.test.js\<close>.
\<close>




text \<open>Lines 387-405: the conditions and positional parameters.\<close>

definition Company_findAll_filter :: "obj \<Rightarrow> string list \<times> jsval list" where
  "Company_findAll_filter queryParams =
     (let conditions = [];
          values = [];
          (conditions, values) =
            (if truthy (js_get queryParams ''nameLike'')
             then (let values = values @ [JStr (''%'' @ toString (js_get queryParams ''nameLike'') @ ''%'')]
                   in (conditions @ [''name ILIKE $'' @ show_nat (length values)], values))
             else (conditions, values));
          (conditions, values) =
            (if truthy (js_get queryParams ''minEmployees'')
             then (let values = values @ [js_get queryParams ''minEmployees'']
                   in (conditions @ [''num_employees >= $'' @ show_nat (length values)], values))
             else (conditions, values));
          (conditions, values) =
            (if truthy (js_get queryParams ''maxEmployees'')
             then (let values = values @ [js_get queryParams ''maxEmployees'']
                   in (conditions @ [''num_employees <= $'' @ show_nat (length values)], values))
             else (conditions, values))
      in (conditions, values))"

text \<open>Lines 380-385 and 407-412: the statement text around the conditions.\<close>

definition Company_findAll_select :: string where
  "Company_findAll_select =
     ''SELECT handle,\<newline>'' @
     ''                  name,\<newline>'' @
     ''                  description,\<newline>'' @
     ''                  num_employees AS \"numEmployees\",\<newline>'' @
     ''                  logo_url AS \"logoUrl\"\<newline>'' @
     ''           FROM companies''"

definition Company_findAll_query :: "obj \<Rightarrow> statement" where
  "Company_findAll_query queryParams =
     (let query = Company_findAll_select;
          (conditions, values) = Company_findAll_filter queryParams;
          query = (if length conditions > 0
                   then query @ '' WHERE '' @ join '' AND '' conditions
                   else query);
          query = query @ '' ORDER BY name''
      in (query, values))"

text \<open>Lines 366-416: the range check comes first, then the statement is built and run.\<close>

definition Company_findAll :: "'s engine \<Rightarrow> obj \<Rightarrow> 's db \<Rightarrow> (error + row list) \<times> 's db" where
  "Company_findAll eng queryParams d =
     (if truthy (js_get queryParams ''minEmployees'') \<and> truthy (js_get queryParams ''maxEmployees'')
         \<and> js_ge (parseInt (js_get queryParams ''minEmployees''))
                  (parseInt (js_get queryParams ''maxEmployees''))
      then (Inl (ExpressError ''Min Employees can't be larger or equal to max Employees'' 400), d)
      else (case Company_findAll_query queryParams of
              (query, values) \<Rightarrow> db_query eng query values d))"

text \<open>Lines 426-470: the joined rows are folded into one company with its jobs.\<close>

definition Company_get_sql :: string where
  "Company_get_sql =
     ''SELECT c.handle,\<newline>'' @
     ''                  c.name,\<newline>'' @
     ''                  c.description,\<newline>'' @
     ''                  c.num_employees,\<newline>'' @
     ''                  c.logo_url,\<newline>'' @
     ''                  j.id, j.title, j.salary, j.equity, j.company_handle\<newline>'' @
     ''           FROM companies as c\<newline>'' @
     ''           LEFT JOIN jobs as j\<newline>'' @
     ''           ON c.handle = j.company_handle\<newline>'' @
     ''           WHERE handle = $1''"

text \<open>The object literal of lines 459-465, pushed for a row.\<close>

definition Company_get_job :: "row \<Rightarrow> jsval" where
  "Company_get_job row =
     JObj [(''id'', js_get row ''id''),
           (''title'', js_get row ''title''),
           (''salary'', js_get row ''salary''),
           (''equity'', js_get row ''equity''),
           (''companyHandle'', js_get row ''company_handle'')]"

fun Company_get_forEach :: "row list \<Rightarrow> jsval list \<Rightarrow> jsval list" where
  "Company_get_forEach [] jobs = jobs"
| "Company_get_forEach (row # rows) jobs =
     (if truthy (js_get row ''id'')
      then Company_get_forEach rows (jobs @ [Company_get_job row])
      else Company_get_forEach rows jobs)"

text \<open>The object of lines 448-455, with its \<^verbatim>\<open>jobs\<close> as they end up.\<close>

definition Company_get_company :: "row \<Rightarrow> jsval list \<Rightarrow> jsval" where
  "Company_get_company row0 jobs =
     JObj [(''handle'', js_get row0 ''handle''),
           (''name'', js_get row0 ''name''),
           (''description'', js_get row0 ''description''),
           (''numEmployees'', js_get row0 ''num_employees''),
           (''logoUrl'', js_get row0 ''logo_url''),
           (''jobs'', JArr jobs)]"

definition Company_get :: "'s engine \<Rightarrow> jsval \<Rightarrow> 's db \<Rightarrow> (error + jsval) \<times> 's db" where
  "Company_get eng handleData d =
     await (db_query eng Company_get_sql [handleData] d)
       (\<lambda>companyRes d.
          if length companyRes = 0
          then (Inl (NotFoundError (''No company: '' @ toString handleData)), d)
          else (Inr (Company_get_company (hd companyRes) (Company_get_forEach companyRes [])), d))"

text \<open>Lines 484-505.\<close>

definition Company_update_sql :: "string \<Rightarrow> string \<Rightarrow> string" where
  "Company_update_sql setCols handleVarIdx =
     ''UPDATE companies \<newline>'' @
     ''                      SET '' @ setCols @ '' \<newline>'' @
     ''                      WHERE handle = '' @ handleVarIdx @ '' \<newline>'' @
     ''                      RETURNING handle, \<newline>'' @
     ''                                name, \<newline>'' @
     ''                                description, \<newline>'' @
     ''                                num_employees AS \"numEmployees\", \<newline>'' @
     ''                                logo_url AS \"logoUrl\"''"

definition Company_update_jsToSql :: "(string \<times> string) list" where
  "Company_update_jsToSql = [(''numEmployees'', ''num_employees''), (''logoUrl'', ''logo_url'')]"

definition Company_update :: "'s engine \<Rightarrow> jsval \<Rightarrow> obj \<Rightarrow> 's db \<Rightarrow> (error + jsval) \<times> 's db" where
  "Company_update eng handle data d =
     (case sqlForPartialUpdate data Company_update_jsToSql of
        Inl e \<Rightarrow> (Inl e, d)
      | Inr (setCols, values) \<Rightarrow>
          (let handleVarIdx = ''$'' @ show_nat (length values + 1);
               querySql = Company_update_sql setCols handleVarIdx
           in await (db_query eng querySql (values @ [handle]) d)
                (\<lambda>result d.
                   let company = rows0 result
                   in if \<not> truthy company
                      then (Inl (NotFoundError (''No company: '' @ toString handle)), d)
                      else (Inr company, d))))"

section \<open>The filter builder as a table\<close>

text \<open>
  The algorithm of section 4.3 of the specification, in its words: each entity has a
  fixed, ordered list of recognised criteria, each with the text of its condition up to
  the placeholder and the parameter it contributes. A criterion counts as present when
  its value is truthy, which is the test the models make. The conditions and values of
  the present criteria are numbered from 1 in that order. The models of
  \<^verbatim>\<open>findAll\<close> above are compared with it below.
\<close>

type_synonym criterion = "string \<times> string \<times> (jsval \<Rightarrow> jsval)"

definition Company_criteria :: "criterion list" where
  "Company_criteria =
     [(''nameLike'', ''name ILIKE $'', \<lambda>v. JStr (''%'' @ toString v @ ''%'')),
      (''minEmployees'', ''num_employees >= $'', \<lambda>v. v),
      (''maxEmployees'', ''num_employees <= $'', \<lambda>v. v)]"

definition Job_criteria :: "criterion list" where
  "Job_criteria =
     [(''title'', ''title ILIKE $'', \<lambda>v. JStr (''%'' @ toString v @ ''%'')),
      (''minSalary'', ''salary >= $'', \<lambda>v. v)]"

definition present_criteria :: "criterion list \<Rightarrow> obj \<Rightarrow> criterion list" where
  "present_criteria table criteria = filter (\<lambda>(k, c, p). truthy (js_get criteria k)) table"

definition criteria_conditions :: "criterion list \<Rightarrow> obj \<Rightarrow> string list" where
  "criteria_conditions table criteria =
     map (\<lambda>(i, (k, c, p)). c @ show_nat (i + 1)) (enumerate 0 (present_criteria table criteria))"

definition criteria_values :: "criterion list \<Rightarrow> obj \<Rightarrow> jsval list" where
  "criteria_values table criteria =
     map (\<lambda>(k, c, p). p (js_get criteria k)) (present_criteria table criteria)"

section \<open>A reference store\<close>




















section \<open>Auxiliary facts\<close>

lemma sublist_within: "sublist c m \<Longrightarrow> sublist c (a @ m @ b)"
proof -
  assume "sublist c m"
  then obtain ps ss where "m = ps @ c @ ss" by (auto simp: sublist_def)
  then have "a @ m @ b = (a @ ps) @ c @ (ss @ b)" by simp
  then show ?thesis unfolding sublist_def by blast
qed

lemma sublist_join: "c \<in> set cs \<Longrightarrow> sublist c (join sep cs)"
proof (induction sep cs rule: join.induct)
  case (1 sep)
  then show ?case by simp
next
  case (2 sep x)
  then show ?case by simp
next
  case (3 sep x y ys)
  show ?case
  proof (cases "c = x")
    case True
    then show ?thesis by simp
  next
    case False
    with 3 have "sublist c (join sep (y # ys))" by simp
    then have "sublist c ((x @ sep) @ join sep (y # ys) @ [])"
      by (rule sublist_within)
    then show ?thesis by simp
  qed
qed

text \<open>Every accumulated condition stands in the text of the statement.\<close>

lemma Job_findAll_query_conditions:
  "c \<in> set (fst (Job_findAll_filter qp)) \<Longrightarrow> sublist c (fst (Job_findAll_query qp))"
proof -
  assume a: "c \<in> set (fst (Job_findAll_filter qp))"
  then have ne: "fst (Job_findAll_filter qp) \<noteq> []" by auto
  have "sublist c (join '' AND '' (fst (Job_findAll_filter qp)))"
    using a by (rule sublist_join)
  then have "sublist c ((Job_findAll_select @ '' WHERE '') @
      join '' AND '' (fst (Job_findAll_filter qp)) @ '' ORDER BY title'')"
    by (rule sublist_within)
  then show ?thesis
    using ne by (simp add: Job_findAll_query_def Let_def split_beta)
qed

lemma Job_findAll_query_part000_conditions:
  "c \<in> set (fst (Job_findAll_filter_part000 qp)) \<Longrightarrow> sublist c (fst (Job_findAll_query_part000 qp))"
proof -
  assume a: "c \<in> set (fst (Job_findAll_filter_part000 qp))"
  then have ne: "fst (Job_findAll_filter_part000 qp) \<noteq> []" by auto
  have "sublist c (join '' AND '' (fst (Job_findAll_filter_part000 qp)))"
    using a by (rule sublist_join)
  then have "sublist c ((Job_findAll_select_part000 @ '' WHERE '') @
      join '' AND '' (fst (Job_findAll_filter_part000 qp)) @ '' ORDER BY title'')"
    by (rule sublist_within)
  then show ?thesis
    using ne by (simp add: Job_findAll_query_part000_def Let_def split_beta)
qed

lemma equity_conditions:
  "(js_get qp ''equity'' = JStr ''true'' \<longrightarrow>
      ''equity > 0'' \<in> set (fst (Job_findAll_filter qp)) \<and>
      ''equity = 0'' \<notin> set (fst (Job_findAll_filter qp))) \<and>
   (js_get qp ''equity'' \<noteq> JStr ''true'' \<longrightarrow>
      ''equity > 0'' \<notin> set (fst (Job_findAll_filter qp)) \<and>
      ''equity = 0'' \<notin> set (fst (Job_findAll_filter qp))) \<and>
   (js_get qp ''hasEquity'' = JStr ''true'' \<longrightarrow>
      ''equity > 0'' \<in> set (fst (Job_findAll_filter_part000 qp)) \<and>
      ''equity = 0'' \<notin> set (fst (Job_findAll_filter_part000 qp))) \<and>
   (js_get qp ''hasEquity'' = JStr ''false'' \<longrightarrow>
      ''equity = 0'' \<in> set (fst (Job_findAll_filter_part000 qp)) \<and>
      ''equity > 0'' \<notin> set (fst (Job_findAll_filter_part000 qp)))"
  by (simp add: Job_findAll_filter_def Job_findAll_filter_part000_def Let_def)

subsection \<open>The store client\<close>

lemma db_query_answer:
  "eng (text, params) (store d) = (res, s') \<Longrightarrow>
   db_query eng text params d = (res, \<lparr>store = s', issued = issued d @ [(text, params)]\<rparr>)"
  by (simp add: db_query_def)


subsection \<open>parseInt on the decimal rendering of a number\<close>








subsection \<open>Objects\<close>

lemma js_get_js_delete:
  "js_get (js_delete k ob) k' = (if k' = k then Undefined else js_get ob k')"
  by (induction ob) (auto simp add: js_get_def js_delete_def)

lemma equity_not_true_unfiltered:
  "js_get qp ''equity'' \<noteq> JStr ''true'' \<Longrightarrow>
   Job_findAll_query qp = Job_findAll_query (js_delete ''equity'' qp)"
  by (simp add: Job_findAll_query_def Job_findAll_filter_def js_get_js_delete Let_def)

lemma false_flag_not_true: "v = JStr ''false'' \<or> \<not> truthy v \<Longrightarrow> v \<noteq> JStr ''true''"
  by auto

section \<open>The equity flag of Job.findAll\<close>

text \<open>
  Claim C1, as the two variants of \<^verbatim>\<open>Job.findAll\<close> have it. The flag is compared
  with the string \<^verbatim>\<open>"true"\<close> (and, in \<^verbatim>\<open>src/unnamed/part_000\<close>, with
  \<^verbatim>\<open>"false"\<close>), as a query string delivers it; the two equity conditions of the
  source are the literals \<^verbatim>\<open>equity > 0\<close> and \<^verbatim>\<open>equity = 0\<close>.
  In both variants the true-flag puts \<^verbatim>\<open>equity > 0\<close>, and not \<^verbatim>\<open>equity = 0\<close>,
  among the conditions and into the statement text. In \<^verbatim>\<open>src/unnamed/part_001\<close>
  the false-flag (the string \<^verbatim>\<open>"false"\<close>, or a falsy value such as the Boolean
  \<^verbatim>\<open>false\<close>) and an absent flag give no equity condition at all: the statement is
  the one built without the flag. In \<^verbatim>\<open>src/unnamed/part_000\<close> the false-flag gives
  \<^verbatim>\<open>equity = 0\<close>.
\<close>

theorem Job_findAll_equity_policy:
  "(js_get qp ''equity'' = JStr ''true'' \<longrightarrow>
      ''equity > 0'' \<in> set (fst (Job_findAll_filter qp)) \<and>
      ''equity = 0'' \<notin> set (fst (Job_findAll_filter qp)) \<and>
      sublist ''equity > 0'' (fst (Job_findAll_query qp))) \<and>
   (js_get qp ''equity'' = JStr ''false'' \<or> \<not> truthy (js_get qp ''equity'') \<longrightarrow>
      ''equity > 0'' \<notin> set (fst (Job_findAll_filter qp)) \<and>
      ''equity = 0'' \<notin> set (fst (Job_findAll_filter qp)) \<and>
      Job_findAll_query qp = Job_findAll_query (js_delete ''equity'' qp)) \<and>
   (js_get qp ''hasEquity'' = JStr ''true'' \<longrightarrow>
      ''equity > 0'' \<in> set (fst (Job_findAll_filter_part000 qp)) \<and>
      ''equity = 0'' \<notin> set (fst (Job_findAll_filter_part000 qp)) \<and>
      sublist ''equity > 0'' (fst (Job_findAll_query_part000 qp))) \<and>
   (js_get qp ''hasEquity'' = JStr ''false'' \<longrightarrow>
      ''equity = 0'' \<in> set (fst (Job_findAll_filter_part000 qp)) \<and>
      ''equity > 0'' \<notin> set (fst (Job_findAll_filter_part000 qp)) \<and>
      sublist ''equity = 0'' (fst (Job_findAll_query_part000 qp)))"
  using equity_conditions [of qp] Job_findAll_query_conditions [of "''equity > 0''" qp]
    Job_findAll_query_part000_conditions [of "''equity > 0''" qp]
    Job_findAll_query_part000_conditions [of "''equity = 0''" qp]
    equity_not_true_unfiltered [of qp] false_flag_not_true [of "js_get qp ''equity''"]
  by blast

text \<open>The policy at the flags \<^verbatim>\<open>"true"\<close>, \<^verbatim>\<open>"false"\<close> and absent.\<close>

theorem Job_findAll_equity_policy_witness:
  "''equity > 0'' \<in> set (fst (Job_findAll_filter [(''equity'', JStr ''true'')])) \<and>
   sublist ''equity > 0'' (fst (Job_findAll_query [(''equity'', JStr ''true'')])) \<and>
   ''equity = 0'' \<notin> set (fst (Job_findAll_filter [(''equity'', JStr ''false'')])) \<and>
   ''equity > 0'' \<notin> set (fst (Job_findAll_filter [(''equity'', JStr ''false'')])) \<and>
   ''equity = 0'' \<notin> set (fst (Job_findAll_filter [])) \<and>
   ''equity > 0'' \<in> set (fst (Job_findAll_filter_part000 [(''hasEquity'', JStr ''true'')])) \<and>
   ''equity = 0'' \<in> set (fst (Job_findAll_filter_part000 [(''hasEquity'', JStr ''false'')]))"
  using Job_findAll_equity_policy [of "[(''equity'', JStr ''true'')]"]
    Job_findAll_equity_policy [of "[(''equity'', JStr ''false'')]"]
    Job_findAll_equity_policy [of "[]"]
    Job_findAll_equity_policy [of "[(''hasEquity'', JStr ''true'')]"]
    Job_findAll_equity_policy [of "[(''hasEquity'', JStr ''false'')]"]
  by (simp add: js_get_def)

text \<open>
  Where the three-way policy fails: with the false-flag, \<^verbatim>\<open>src/unnamed/part_001\<close>
  emits no \<^verbatim>\<open>equity = 0\<close> (the statement has no \<^verbatim>\<open>WHERE\<close> at all); with the
  flag absent, \<^verbatim>\<open>src/unnamed/part_000\<close> emits \<^verbatim>\<open>equity = 0\<close>.
\<close>

theorem Job_findAll_equity_counterexample:
  "''equity = 0'' \<notin> set (fst (Job_findAll_filter [(''equity'', JStr ''false'')])) \<and>
   fst (Job_findAll_query [(''equity'', JStr ''false'')]) = Job_findAll_select @ '' ORDER BY title'' \<and>
   ''equity = 0'' \<in> set (fst (Job_findAll_filter_part000 []))"
  by (simp add: Job_findAll_filter_def Job_findAll_query_def Job_findAll_filter_part000_def js_get_def)

section \<open>An update needs a field\<close>

text \<open>
  Claim C4. The partial-update helper fails with the "no data" error exactly on the empty
  field mapping, whatever the override table; \<^verbatim>\<open>Job.update\<close> and
  \<^verbatim>\<open>Company.update\<close> with no field fail with that error, and hand no statement to
  the store.
\<close>

theorem update_requires_fields:
  "(sqlForPartialUpdate fieldMapping overrides = Inl (InvalidUpdateError ''no data'')) = (fieldMapping = []) \<and>
   Job_update eng jid [] d = (Inl (InvalidUpdateError ''no data''), d) \<and>
   Company_update eng handle [] d = (Inl (InvalidUpdateError ''no data''), d)"
  by (simp add: sqlForPartialUpdate_def Job_update_def Company_update_def)

section \<open>The not-found branch of Job.get in part_000\<close>

text \<open>
  Claim C9. In \<^verbatim>\<open>src/unnamed/part_000\<close>, when the store returns no row for the id,
  \<^verbatim>\<open>Job.get\<close> ends with a \<open>ReferenceError\<close> for the identifier
  \<^verbatim>\<open>handle\<close>, not with a \<open>NotFoundError\<close>.
\<close>

theorem Job_get_part000_not_found_ReferenceError:
  "eng (Job_get_part000_sql, [jid]) (store d) = (Inr [], s') \<Longrightarrow>
   fst (Job_get_part000 eng jid d) = Inl (ReferenceError ''handle is not defined'')"
  by (simp add: Job_get_part000_def await_def db_query_def rows0_def resolve_def
      Job_get_part000_scope_def)

text \<open>\<^verbatim>\<open>Job.get(0)\<close> on a store with no such job.\<close>

theorem Job_get_part000_not_found_ReferenceError_witness:
  "replay (Job_get_part000_sql, [JNum 0]) (store \<lparr>store = [], issued = []\<rparr>) = (Inr [], []) \<and>
   fst (Job_get_part000 replay (JNum 0) \<lparr>store = [], issued = []\<rparr>) =
     Inl (ReferenceError ''handle is not defined'')"
  using Job_get_part000_not_found_ReferenceError
    [of replay "JNum 0" "\<lparr>store = [], issued = []\<rparr>" "[]"]
  by simp

section \<open>Duplicate checks before an insert\<close>








section \<open>The key of an update\<close>






section \<open>Folding the joined rows of get\<close>

lemma Job_get_forEach_eq:
  "Job_get_forEach rows acc =
     acc @ map Job_get_company (filter (\<lambda>r. truthy (js_get r ''handle'')) rows)"
  by (induction rows arbitrary: acc) simp_all

lemma Company_get_forEach_eq:
  "Company_get_forEach rows acc =
     acc @ map Company_get_job (filter (\<lambda>r. truthy (js_get r ''id'')) rows)"
  by (induction rows arbitrary: acc) simp_all

lemma left_joins: "sublist ''LEFT JOIN'' Job_get_sql \<and> sublist ''LEFT JOIN'' Company_get_sql"
  unfolding Job_get_sql_def Company_get_sql_def by code_simp

lemma Job_get_rows:
  "eng (Job_get_sql, [k]) (store d) = (Inr rows, s') \<Longrightarrow>
   Job_get eng k d =
     (if rows = [] then Inl (NotFoundError (''No job found: '' @ toString k))
      else Inr (Job_get_job (hd rows)
                  (map Job_get_company (filter (\<lambda>r. truthy (js_get r ''handle'')) rows))),
      \<lparr>store = s', issued = issued d @ [(Job_get_sql, [k])]\<rparr>)"
  by (simp add: Job_get_def await_def db_query_answer Job_get_forEach_eq)

lemma Company_get_rows:
  "eng (Company_get_sql, [k]) (store d) = (Inr rows, s') \<Longrightarrow>
   Company_get eng k d =
     (if rows = [] then Inl (NotFoundError (''No company: '' @ toString k))
      else Inr (Company_get_company (hd rows)
                  (map Company_get_job (filter (\<lambda>r. truthy (js_get r ''id'')) rows))),
      \<lparr>store = s', issued = issued d @ [(Company_get_sql, [k])]\<rparr>)"
  by (simp add: Company_get_def await_def db_query_answer Company_get_forEach_eq)

lemma filter_all_Null:
  "list_all (\<lambda>r. js_get r c = Null) rows \<Longrightarrow> filter (\<lambda>r. truthy (js_get r c)) rows = []"
  by (induction rows) simp_all

lemma filter_truthy_not_Null:
  "list_all (\<lambda>r. js_get r c = Null \<or> truthy (js_get r c)) rows \<Longrightarrow>
   filter (\<lambda>r. truthy (js_get r c)) rows = filter (\<lambda>r. js_get r c \<noteq> Null) rows"
  by (induction rows) auto

text \<open>
  Claim C2, for \<^verbatim>\<open>Job.get\<close> of \<^verbatim>\<open>src/unnamed/part_001\<close> and for
  \<^verbatim>\<open>Company.get\<close>. Each issues one statement, a left join of the owner with its
  related rows, with the key as its parameter. When the store returns no row the call
  fails with \<open>NotFoundError\<close>. Otherwise the result is one object: the owner's columns
  of the first row, and a nested array with one entry, in the order of the rows, for each
  row whose related key (the company's \<^verbatim>\<open>handle\<close>, the job's \<^verbatim>\<open>id\<close>) is
  truthy. Rows whose related key is \<open>null\<close>, which is how the join reports an owner with
  no related row, give no entry, so such an owner gets the empty array. When every
  related key is \<open>null\<close> or truthy (no job has the id 0, no company the empty handle),
  the entries are those of the rows whose related key is not \<open>null\<close>.
\<close>

theorem getByKey_folds_joined_rows:
  "(eng (Job_get_sql, [k]) (store d) = (Inr rows, s') \<longrightarrow>
      issued (snd (Job_get eng k d)) = issued d @ [(Job_get_sql, [k])] \<and>
      (rows = [] \<longrightarrow> fst (Job_get eng k d) = Inl (NotFoundError (''No job found: '' @ toString k))) \<and>
      (rows \<noteq> [] \<longrightarrow>
         fst (Job_get eng k d) =
           Inr (Job_get_job (hd rows)
                  (map Job_get_company (filter (\<lambda>r. truthy (js_get r ''handle'')) rows)))) \<and>
      (rows \<noteq> [] \<and> list_all (\<lambda>r. js_get r ''handle'' = Null) rows \<longrightarrow>
         fst (Job_get eng k d) = Inr (Job_get_job (hd rows) [])) \<and>
      (rows \<noteq> [] \<and> list_all (\<lambda>r. js_get r ''handle'' = Null \<or> truthy (js_get r ''handle'')) rows \<longrightarrow>
         fst (Job_get eng k d) =
           Inr (Job_get_job (hd rows)
                  (map Job_get_company (filter (\<lambda>r. js_get r ''handle'' \<noteq> Null) rows))))) \<and>
   (eng (Company_get_sql, [k]) (store d) = (Inr rows, s') \<longrightarrow>
      issued (snd (Company_get eng k d)) = issued d @ [(Company_get_sql, [k])] \<and>
      (rows = [] \<longrightarrow> fst (Company_get eng k d) = Inl (NotFoundError (''No company: '' @ toString k))) \<and>
      (rows \<noteq> [] \<longrightarrow>
         fst (Company_get eng k d) =
           Inr (Company_get_company (hd rows)
                  (map Company_get_job (filter (\<lambda>r. truthy (js_get r ''id'')) rows)))) \<and>
      (rows \<noteq> [] \<and> list_all (\<lambda>r. js_get r ''id'' = Null) rows \<longrightarrow>
         fst (Company_get eng k d) = Inr (Company_get_company (hd rows) [])) \<and>
      (rows \<noteq> [] \<and> list_all (\<lambda>r. js_get r ''id'' = Null \<or> truthy (js_get r ''id'')) rows \<longrightarrow>
         fst (Company_get eng k d) =
           Inr (Company_get_company (hd rows)
                  (map Company_get_job (filter (\<lambda>r. js_get r ''id'' \<noteq> Null) rows))))) \<and>
   sublist ''LEFT JOIN'' Job_get_sql \<and> sublist ''LEFT JOIN'' Company_get_sql"
  using Job_get_rows [of eng k d rows s'] Company_get_rows [of eng k d rows s'] left_joins
    filter_all_Null [of "''handle''" rows] filter_all_Null [of "''id''" rows]
    filter_truthy_not_Null [of "''handle''" rows] filter_truthy_not_Null [of "''id''" rows]
  by simp

text \<open>
  A company with two jobs, a company with none, a job with its company, and a key the
  store does not have.
\<close>

theorem getByKey_folds_joined_rows_witness:
  "fst (Company_get replay (JStr ''c1'')
          \<lparr>store = [Inr [[(''handle'', JStr ''c1''), (''name'', JStr ''C1''), (''description'', JStr ''Desc1''),
                           (''num_employees'', JNum 1), (''logo_url'', JStr ''http://c1.img''),
                           (''id'', JNum 1), (''title'', JStr ''j1''), (''salary'', JNum 10),
                           (''equity'', JStr ''0''), (''company_handle'', JStr ''c1'')],
                          [(''handle'', JStr ''c1''), (''name'', JStr ''C1''), (''description'', JStr ''Desc1''),
                           (''num_employees'', JNum 1), (''logo_url'', JStr ''http://c1.img''),
                           (''id'', JNum 2), (''title'', JStr ''j2''), (''salary'', JNum 20),
                           (''equity'', JStr ''1''), (''company_handle'', JStr ''c1'')]]],
           issued = []\<rparr>) =
     Inr (JObj [(''handle'', JStr ''c1''), (''name'', JStr ''C1''), (''description'', JStr ''Desc1''),
                (''numEmployees'', JNum 1), (''logoUrl'', JStr ''http://c1.img''),
                (''jobs'', JArr [JObj [(''id'', JNum 1), (''title'', JStr ''j1''), (''salary'', JNum 10),
                                       (''equity'', JStr ''0''), (''companyHandle'', JStr ''c1'')],
                                 JObj [(''id'', JNum 2), (''title'', JStr ''j2''), (''salary'', JNum 20),
                                       (''equity'', JStr ''1''), (''companyHandle'', JStr ''c1'')]])]) \<and>
   fst (Company_get replay (JStr ''c3'')
          \<lparr>store = [Inr [[(''handle'', JStr ''c3''), (''name'', JStr ''C3''), (''description'', JStr ''Desc3''),
                           (''num_employees'', JNum 3), (''logo_url'', JStr ''http://c3.img''),
                           (''id'', Null), (''title'', Null), (''salary'', Null),
                           (''equity'', Null), (''company_handle'', Null)]]],
           issued = []\<rparr>) =
     Inr (JObj [(''handle'', JStr ''c3''), (''name'', JStr ''C3''), (''description'', JStr ''Desc3''),
                (''numEmployees'', JNum 3), (''logoUrl'', JStr ''http://c3.img''),
                (''jobs'', JArr [])]) \<and>
   fst (Job_get replay (JNum 1)
          \<lparr>store = [Inr [[(''id'', JNum 1), (''title'', JStr ''j1''), (''salary'', JNum 10),
                           (''equity'', JStr ''0''), (''handle'', JStr ''c1''), (''name'', JStr ''C1''),
                           (''description'', JStr ''Desc1''), (''num_employees'', JNum 1),
                           (''logo_url'', JStr ''http://c1.img'')]]],
           issued = []\<rparr>) =
     Inr (JObj [(''id'', JNum 1), (''title'', JStr ''j1''), (''salary'', JNum 10), (''equity'', JStr ''0''),
                (''companies'', JArr [JObj [(''handle'', JStr ''c1''), (''name'', JStr ''C1''),
                                            (''description'', JStr ''Desc1''), (''numEmployees'', JNum 1),
                                            (''logoUrl'', JStr ''http://c1.img'')]])]) \<and>
   fst (Job_get replay (JNum 0) \<lparr>store = [], issued = []\<rparr>) =
     Inl (NotFoundError ''No job found: 0'') \<and>
   issued (snd (Job_get replay (JNum 0) \<lparr>store = [], issued = []\<rparr>)) = [(Job_get_sql, [JNum 0])] \<and>
   fst (Company_get replay (JStr ''nope'') \<lparr>store = [], issued = []\<rparr>) =
     Inl (NotFoundError ''No company: nope'') \<and>
   issued (snd (Company_get replay (JStr ''nope'') \<lparr>store = [], issued = []\<rparr>)) =
     [(Company_get_sql, [JStr ''nope''])]"
proof -
  let ?two = "[[(''handle'', JStr ''c1''), (''name'', JStr ''C1''), (''description'', JStr ''Desc1''),
                (''num_employees'', JNum 1), (''logo_url'', JStr ''http://c1.img''),
                (''id'', JNum 1), (''title'', JStr ''j1''), (''salary'', JNum 10),
                (''equity'', JStr ''0''), (''company_handle'', JStr ''c1'')],
               [(''handle'', JStr ''c1''), (''name'', JStr ''C1''), (''description'', JStr ''Desc1''),
                (''num_employees'', JNum 1), (''logo_url'', JStr ''http://c1.img''),
                (''id'', JNum 2), (''title'', JStr ''j2''), (''salary'', JNum 20),
                (''equity'', JStr ''1''), (''company_handle'', JStr ''c1'')]]"
  let ?none = "[[(''handle'', JStr ''c3''), (''name'', JStr ''C3''), (''description'', JStr ''Desc3''),
                 (''num_employees'', JNum 3), (''logo_url'', JStr ''http://c3.img''),
                 (''id'', Null), (''title'', Null), (''salary'', Null),
                 (''equity'', Null), (''company_handle'', Null)]]"
  let ?job = "[[(''id'', JNum 1), (''title'', JStr ''j1''), (''salary'', JNum 10),
                (''equity'', JStr ''0''), (''handle'', JStr ''c1''), (''name'', JStr ''C1''),
                (''description'', JStr ''Desc1''), (''num_employees'', JNum 1),
                (''logo_url'', JStr ''http://c1.img'')]]"
  have a: "replay st (store \<lparr>store = [Inr rows], issued = []\<rparr>) = (Inr rows, [])" for st rows
    by simp
  have two: "fst (Company_get replay (JStr ''c1'') \<lparr>store = [Inr ?two], issued = []\<rparr>) =
      Inr (Company_get_company (hd ?two)
             (map Company_get_job (filter (\<lambda>r. truthy (js_get r ''id'')) ?two)))"
    using getByKey_folds_joined_rows
      [of replay "JStr ''c1''" "\<lparr>store = [Inr ?two], issued = []\<rparr>" ?two "[]"] a
    by blast
  have none: "fst (Company_get replay (JStr ''c3'') \<lparr>store = [Inr ?none], issued = []\<rparr>) =
      Inr (Company_get_company (hd ?none)
             (map Company_get_job (filter (\<lambda>r. truthy (js_get r ''id'')) ?none)))"
    using getByKey_folds_joined_rows
      [of replay "JStr ''c3''" "\<lparr>store = [Inr ?none], issued = []\<rparr>" ?none "[]"] a
    by blast
  have job: "fst (Job_get replay (JNum 1) \<lparr>store = [Inr ?job], issued = []\<rparr>) =
      Inr (Job_get_job (hd ?job)
             (map Job_get_company (filter (\<lambda>r. truthy (js_get r ''handle'')) ?job)))"
    using getByKey_folds_joined_rows
      [of replay "JNum 1" "\<lparr>store = [Inr ?job], issued = []\<rparr>" ?job "[]"] a
    by blast
  have nojob: "fst (Job_get replay (JNum 0) \<lparr>store = [], issued = []\<rparr>) =
        Inl (NotFoundError (''No job found: '' @ toString (JNum 0)))"
      "issued (snd (Job_get replay (JNum 0) \<lparr>store = [], issued = []\<rparr>)) =
        [(Job_get_sql, [JNum 0])]"
    using getByKey_folds_joined_rows [of replay "JNum 0" "\<lparr>store = [], issued = []\<rparr>" "[]" "[]"]
    by simp_all
  have nocompany: "fst (Company_get replay (JStr ''nope'') \<lparr>store = [], issued = []\<rparr>) =
        Inl (NotFoundError (''No company: '' @ toString (JStr ''nope'')))"
      "issued (snd (Company_get replay (JStr ''nope'') \<lparr>store = [], issued = []\<rparr>)) =
        [(Company_get_sql, [JStr ''nope''])]"
    using getByKey_folds_joined_rows [of replay "JStr ''nope''" "\<lparr>store = [], issued = []\<rparr>" "[]" "[]"]
    by simp_all
  show ?thesis
    unfolding two none job nojob nocompany
    by (simp add: js_get_def Job_get_job_def Job_get_company_def Company_get_company_def
        Company_get_job_def show_int_def show_nat.simps)
qed

text \<open>
  A related row whose key is not truthy gives no entry either: the job below belongs to a
  company whose handle is the empty string, the joined side of its row is not \<open>null\<close>,
  and \<^verbatim>\<open>companies\<close> is empty.
\<close>

theorem getByKey_empty_handle_counterexample:
  "fst (Job_get replay (JNum 1)
          \<lparr>store = [Inr [[(''id'', JNum 1), (''title'', JStr ''j1''), (''salary'', JNum 10),
                           (''equity'', JStr ''0''), (''handle'', JStr ''''), (''name'', JStr ''Anonymous''),
                           (''description'', JStr ''No handle''), (''num_employees'', JNum 4),
                           (''logo_url'', Null)]]],
           issued = []\<rparr>) =
     Inr (JObj [(''id'', JNum 1), (''title'', JStr ''j1''), (''salary'', JNum 10), (''equity'', JStr ''0''),
                (''companies'', JArr [])])"
  by (simp add: Job_get_def await_def db_query_def js_get_def Job_get_job_def)

section \<open>The range check of Company.findAll\<close>




section \<open>The filter builders\<close>

lemma Company_findAll_filter_table:
  "Company_findAll_filter qp =
     (criteria_conditions Company_criteria qp, criteria_values Company_criteria qp)"
  by (simp add: Company_findAll_filter_def criteria_conditions_def criteria_values_def
      present_criteria_def Company_criteria_def Let_def)

lemma Job_findAll_filter_table:
  "Job_findAll_filter qp =
     (criteria_conditions Job_criteria qp @
        (if js_get qp ''equity'' = JStr ''true'' then [''equity > 0''] else []),
      criteria_values Job_criteria qp)"
  by (simp add: Job_findAll_filter_def criteria_conditions_def criteria_values_def
      present_criteria_def Job_criteria_def Let_def)

lemma criteria_lengths:
  "length (criteria_conditions table qp) = length (present_criteria table qp) \<and>
   length (criteria_values table qp) = length (present_criteria table qp)"
  by (simp add: criteria_conditions_def criteria_values_def)

lemma no_WHERE_Company: "\<not> sublist ''WHERE'' (Company_findAll_select @ '' ORDER BY name'')"
  unfolding Company_findAll_select_def by code_simp

lemma no_WHERE_Job: "\<not> sublist ''WHERE'' (Job_findAll_select @ '' ORDER BY title'')"
  unfolding Job_findAll_select_def by code_simp

lemma Company_findAll_query_text:
  "Company_findAll_query qp =
     (Company_findAll_select @
        (if fst (Company_findAll_filter qp) = [] then []
         else '' WHERE '' @ join '' AND '' (fst (Company_findAll_filter qp))) @
        '' ORDER BY name'',
      snd (Company_findAll_filter qp))"
  by (simp add: Company_findAll_query_def Let_def split_beta)

lemma Job_findAll_query_text:
  "Job_findAll_query qp =
     (Job_findAll_select @
        (if fst (Job_findAll_filter qp) = [] then []
         else '' WHERE '' @ join '' AND '' (fst (Job_findAll_filter qp))) @
        '' ORDER BY title'',
      snd (Job_findAll_filter qp))"
  by (simp add: Job_findAll_query_def Let_def split_beta)

text \<open>
  Claim C6, with presence as the models test it, for \<^verbatim>\<open>Company.findAll\<close> and for
  \<^verbatim>\<open>Job.findAll\<close> of \<^verbatim>\<open>src/unnamed/part_001\<close>. The conditions and values of
  each are those of the table: for every recognised key whose value is truthy, in the
  fixed order of the entity, one condition and one positional parameter, numbered from 1.
  The equity flag of \<^verbatim>\<open>Job.findAll\<close> appends the literal \<^verbatim>\<open>equity > 0\<close>, with no
  parameter, when it is the string \<^verbatim>\<open>"true"\<close>, and nothing when it is the string
  \<^verbatim>\<open>"false"\<close>, falsy or absent. The conditions are joined
  with \<^verbatim>\<open>AND\<close> after \<^verbatim>\<open>WHERE\<close>, and a statement with no condition has no
  \<^verbatim>\<open>WHERE\<close> in its text.
\<close>

theorem findAll_filter_builder:
  "Company_findAll_filter qp =
     (criteria_conditions Company_criteria qp, criteria_values Company_criteria qp) \<and>
   (\<exists>flag.
      Job_findAll_filter qp =
        (criteria_conditions Job_criteria qp @ flag, criteria_values Job_criteria qp) \<and>
      (flag = [] \<or> flag = [''equity > 0'']) \<and>
      (js_get qp ''equity'' = JStr ''true'' \<longrightarrow> flag = [''equity > 0'']) \<and>
      (js_get qp ''equity'' = JStr ''false'' \<or> \<not> truthy (js_get qp ''equity'') \<longrightarrow>
         flag = [])) \<and>
   length (criteria_conditions table qp) = length (present_criteria table qp) \<and>
   length (criteria_values table qp) = length (present_criteria table qp) \<and>
   Company_findAll_query qp =
     (Company_findAll_select @
        (if fst (Company_findAll_filter qp) = [] then []
         else '' WHERE '' @ join '' AND '' (fst (Company_findAll_filter qp))) @
        '' ORDER BY name'',
      snd (Company_findAll_filter qp)) \<and>
   Job_findAll_query qp =
     (Job_findAll_select @
        (if fst (Job_findAll_filter qp) = [] then []
         else '' WHERE '' @ join '' AND '' (fst (Job_findAll_filter qp))) @
        '' ORDER BY title'',
      snd (Job_findAll_filter qp)) \<and>
   (fst (Company_findAll_filter qp) = [] \<longrightarrow> \<not> sublist ''WHERE'' (fst (Company_findAll_query qp))) \<and>
   (fst (Job_findAll_filter qp) = [] \<longrightarrow> \<not> sublist ''WHERE'' (fst (Job_findAll_query qp)))"
proof -
  have flag: "\<exists>flag.
      Job_findAll_filter qp =
        (criteria_conditions Job_criteria qp @ flag, criteria_values Job_criteria qp) \<and>
      (flag = [] \<or> flag = [''equity > 0'']) \<and>
      (js_get qp ''equity'' = JStr ''true'' \<longrightarrow> flag = [''equity > 0'']) \<and>
      (js_get qp ''equity'' = JStr ''false'' \<or> \<not> truthy (js_get qp ''equity'') \<longrightarrow>
         flag = [])"
  proof (intro exI conjI)
    show "Job_findAll_filter qp =
        (criteria_conditions Job_criteria qp @
           (if js_get qp ''equity'' = JStr ''true'' then [''equity > 0''] else []),
         criteria_values Job_criteria qp)"
      by (rule Job_findAll_filter_table)
  qed auto
  have rest: "Company_findAll_filter qp =
       (criteria_conditions Company_criteria qp, criteria_values Company_criteria qp) \<and>
     length (criteria_conditions table qp) = length (present_criteria table qp) \<and>
     length (criteria_values table qp) = length (present_criteria table qp) \<and>
     Company_findAll_query qp =
       (Company_findAll_select @
          (if fst (Company_findAll_filter qp) = [] then []
           else '' WHERE '' @ join '' AND '' (fst (Company_findAll_filter qp))) @
          '' ORDER BY name'',
        snd (Company_findAll_filter qp)) \<and>
     Job_findAll_query qp =
       (Job_findAll_select @
          (if fst (Job_findAll_filter qp) = [] then []
           else '' WHERE '' @ join '' AND '' (fst (Job_findAll_filter qp))) @
          '' ORDER BY title'',
        snd (Job_findAll_filter qp)) \<and>
     (fst (Company_findAll_filter qp) = [] \<longrightarrow> \<not> sublist ''WHERE'' (fst (Company_findAll_query qp))) \<and>
     (fst (Job_findAll_filter qp) = [] \<longrightarrow> \<not> sublist ''WHERE'' (fst (Job_findAll_query qp)))"
    using Company_findAll_filter_table [of qp]
      criteria_lengths [of table qp] Company_findAll_query_text [of qp] Job_findAll_query_text [of qp]
      no_WHERE_Company no_WHERE_Job
    by (simp del: append_assoc)
  show ?thesis
    using flag rest by blast
qed

text \<open>
  A company search by name and maximum, a job search with all three criteria, and the
  two searches with no criterion.
\<close>

theorem findAll_filter_builder_witness:
  "Company_findAll_query [(''nameLike'', JStr ''net''), (''maxEmployees'', JNum 500)] =
     (Company_findAll_select @ '' WHERE name ILIKE $1 AND num_employees <= $2 ORDER BY name'',
      [JStr ''%net%'', JNum 500]) \<and>
   Job_findAll_query [(''title'', JStr ''j''), (''minSalary'', JNum 30), (''equity'', JStr ''true'')] =
     (Job_findAll_select @ '' WHERE title ILIKE $1 AND salary >= $2 AND equity > 0 ORDER BY title'',
      [JStr ''%j%'', JNum 30]) \<and>
   \<not> sublist ''WHERE'' (fst (Company_findAll_query [])) \<and>
   \<not> sublist ''WHERE'' (fst (Job_findAll_query []))"
proof -
  note c = findAll_filter_builder [of "[(''nameLike'', JStr ''net''), (''maxEmployees'', JNum 500)]" "[]"]
  note j = findAll_filter_builder
      [of "[(''title'', JStr ''j''), (''minSalary'', JNum 30), (''equity'', JStr ''true'')]" "[]"]
  note e = findAll_filter_builder [of "[]" "[]"]
  have cf: "Company_findAll_filter [(''nameLike'', JStr ''net''), (''maxEmployees'', JNum 500)] =
      ([''name ILIKE $1'', ''num_employees <= $2''], [JStr ''%net%'', JNum 500])"
    using c
    by (simp add: criteria_conditions_def criteria_values_def present_criteria_def Company_criteria_def
        js_get_def show_nat.simps)
  have jf: "Job_findAll_filter [(''title'', JStr ''j''), (''minSalary'', JNum 30), (''equity'', JStr ''true'')] =
      ([''title ILIKE $1'', ''salary >= $2'', ''equity > 0''], [JStr ''%j%'', JNum 30])"
    using j
    by (simp add: criteria_conditions_def criteria_values_def present_criteria_def Job_criteria_def
        js_get_def show_nat.simps)
  have ef: "Company_findAll_filter [] = ([], [])" "Job_findAll_filter [] = ([], [])"
    using e
    by (simp_all add: criteria_conditions_def criteria_values_def present_criteria_def
        Company_criteria_def Job_criteria_def js_get_def)
  have cq: "Company_findAll_query [(''nameLike'', JStr ''net''), (''maxEmployees'', JNum 500)] =
     (Company_findAll_select @ '' WHERE name ILIKE $1 AND num_employees <= $2 ORDER BY name'',
      [JStr ''%net%'', JNum 500])"
    using c unfolding cf by simp
  have jq: "Job_findAll_query [(''title'', JStr ''j''), (''minSalary'', JNum 30), (''equity'', JStr ''true'')] =
     (Job_findAll_select @ '' WHERE title ILIKE $1 AND salary >= $2 AND equity > 0 ORDER BY title'',
      [JStr ''%j%'', JNum 30])"
    using j unfolding jf by simp
  have eq: "\<not> sublist ''WHERE'' (fst (Company_findAll_query []))"
    "\<not> sublist ''WHERE'' (fst (Job_findAll_query []))"
    using e ef by (metis fst_conv)+
  show ?thesis
    using cq jq eq by blast
qed

text \<open>
  Keys that are present and defined, and contribute nothing: a minimum salary of 0, the
  equity flag \<^verbatim>\<open>"false"\<close>, an empty name pattern and a minimum of 0 employees.
\<close>

theorem findAll_filter_builder_counterexample:
  "Job_findAll_filter [(''minSalary'', JNum 0)] = ([], []) \<and>
   Job_findAll_filter [(''equity'', JStr ''false'')] = ([], []) \<and>
   Company_findAll_filter [(''nameLike'', JStr []), (''minEmployees'', JNum 0)] = ([], [])"
  by (simp add: Job_findAll_filter_def Company_findAll_filter_def js_get_def)

section \<open>Criteria that are present and falsy\<close>

lemma js_get_js_delete_falsy:
  assumes "\<not> truthy (js_get qp k)"
  shows "truthy (js_get (js_delete k qp) K) = truthy (js_get qp K)"
    and "truthy (js_get qp K) \<Longrightarrow> js_get (js_delete k qp) K = js_get qp K"
  using assms by (auto simp add: js_get_js_delete)

lemma falsy_filters:
  assumes "\<not> truthy (js_get qp k)"
  shows "Company_findAll_filter (js_delete k qp) = Company_findAll_filter qp \<and>
   Job_findAll_filter (js_delete k qp) = Job_findAll_filter qp \<and>
   Job_findAll_filter_part000 (js_delete k qp) = Job_findAll_filter_part000 qp"
  by (simp add: Company_findAll_filter_def Job_findAll_filter_def Job_findAll_filter_part000_def
      js_get_js_delete_falsy [OF assms] Let_def cong: if_cong conj_cong)

lemma falsy_findAll:
  assumes "\<not> truthy (js_get qp k)"
  shows "Company_findAll eng (js_delete k qp) d = Company_findAll eng qp d \<and>
   Job_findAll eng (js_delete k qp) d = Job_findAll eng qp d \<and>
   Job_findAll_part000 eng (js_delete k qp) d = Job_findAll_part000 eng qp d"
  using falsy_filters [OF assms]
  by (simp add: Company_findAll_def Job_findAll_def Job_findAll_part000_def
      Company_findAll_query_def Job_findAll_query_def Job_findAll_query_part000_def
      js_get_js_delete_falsy [OF assms] cong: if_cong conj_cong)

text \<open>
  Claim C10. A criterion whose value is the number 0 or the empty string is treated as
  one that is not there: the three filter builders give the same conditions and values,
  and the three searches do the same, as on the criteria without that key. And when the
  minimum or the maximum number of employees is 0, \<^verbatim>\<open>Company.findAll\<close> makes no
  range check: it goes on to build and issue its statement.
\<close>

theorem falsy_criterion_is_absent:
  "(js_get qp k = JNum 0 \<or> js_get qp k = JStr [] \<longrightarrow>
      Company_findAll_filter qp = Company_findAll_filter (js_delete k qp) \<and>
      Job_findAll_filter qp = Job_findAll_filter (js_delete k qp) \<and>
      Job_findAll_filter_part000 qp = Job_findAll_filter_part000 (js_delete k qp) \<and>
      Company_findAll eng qp d = Company_findAll eng (js_delete k qp) d \<and>
      Job_findAll eng qp d = Job_findAll eng (js_delete k qp) d \<and>
      Job_findAll_part000 eng qp d = Job_findAll_part000 eng (js_delete k qp) d) \<and>
   (js_get qp ''minEmployees'' = JNum 0 \<or> js_get qp ''maxEmployees'' = JNum 0 \<longrightarrow>
      Company_findAll eng qp d =
        db_query eng (fst (Company_findAll_query qp)) (snd (Company_findAll_query qp)) d)"
proof -
  have "js_get qp k = JNum 0 \<or> js_get qp k = JStr [] \<Longrightarrow> \<not> truthy (js_get qp k)"
    by auto
  then show ?thesis
    using falsy_filters [of qp k] falsy_findAll [of qp k eng d]
    by (auto simp add: Company_findAll_def split_beta)
qed

text \<open>
  A minimum salary of 0 beside a title, an empty name pattern, and a company search from
  3 to 0 employees, which is not refused.
\<close>

theorem falsy_criterion_is_absent_witness:
  "Job_findAll_filter [(''minSalary'', JNum 0), (''title'', JStr ''j'')] =
     Job_findAll_filter [(''title'', JStr ''j'')] \<and>
   Job_findAll_filter [(''title'', JStr ''j'')] = ([''title ILIKE $1''], [JStr ''%j%'']) \<and>
   Company_findAll_filter [(''nameLike'', JStr [])] = Company_findAll_filter [] \<and>
   Company_findAll_filter [] = ([], []) \<and>
   Company_findAll replay [(''minEmployees'', JNum 3), (''maxEmployees'', JNum 0)]
      \<lparr>store = [], issued = []\<rparr> =
     db_query replay (Company_findAll_select @ '' WHERE num_employees >= $1 ORDER BY name'') [JNum 3]
      \<lparr>store = [], issued = []\<rparr>"
proof -
  have "js_get [(''minSalary'', JNum 0), (''title'', JStr ''j'')] ''minSalary'' = JNum 0"
    by (simp add: js_get_def)
  then have j: "Job_findAll_filter [(''minSalary'', JNum 0), (''title'', JStr ''j'')] =
      Job_findAll_filter (js_delete ''minSalary'' [(''minSalary'', JNum 0), (''title'', JStr ''j'')])"
    using falsy_criterion_is_absent [of "[(''minSalary'', JNum 0), (''title'', JStr ''j'')]" "''minSalary''"
        replay "\<lparr>store = [], issued = []\<rparr>"]
    by blast
  have "js_get [(''nameLike'', JStr [])] ''nameLike'' = JStr []"
    by (simp add: js_get_def)
  then have c: "Company_findAll_filter [(''nameLike'', JStr [])] =
      Company_findAll_filter (js_delete ''nameLike'' [(''nameLike'', JStr [])])"
    using falsy_criterion_is_absent [of "[(''nameLike'', JStr [])]" "''nameLike''"
        replay "\<lparr>store = [], issued = []\<rparr>"]
    by blast
  have "js_get [(''minEmployees'', JNum 3), (''maxEmployees'', JNum 0)] ''maxEmployees'' = JNum 0"
    by (simp add: js_get_def)
  then have r: "Company_findAll replay [(''minEmployees'', JNum 3), (''maxEmployees'', JNum 0)]
      \<lparr>store = [], issued = []\<rparr> =
    db_query replay
      (fst (Company_findAll_query [(''minEmployees'', JNum 3), (''maxEmployees'', JNum 0)]))
      (snd (Company_findAll_query [(''minEmployees'', JNum 3), (''maxEmployees'', JNum 0)]))
      \<lparr>store = [], issued = []\<rparr>"
    using falsy_criterion_is_absent [of "[(''minEmployees'', JNum 3), (''maxEmployees'', JNum 0)]"
        "''maxEmployees''" replay "\<lparr>store = [], issued = []\<rparr>"]
    by blast
  have q: "Company_findAll_query [(''minEmployees'', JNum 3), (''maxEmployees'', JNum 0)] =
      (Company_findAll_select @ '' WHERE num_employees >= $1 ORDER BY name'', [JNum 3])"
    by (simp add: Company_findAll_query_def Company_findAll_filter_def js_get_def show_nat.simps)
  have f: "Job_findAll_filter [(''title'', JStr ''j'')] = ([''title ILIKE $1''], [JStr ''%j%''])"
    "Company_findAll_filter [] = ([], [])"
    by (simp_all add: Job_findAll_filter_def Company_findAll_filter_def js_get_def show_nat.simps)
  have dl: "js_delete ''minSalary'' [(''minSalary'', JNum 0), (''title'', JStr ''j'')] = [(''title'', JStr ''j'')]"
    "js_delete ''nameLike'' [(''nameLike'', JStr [])] = []"
    by (simp_all add: js_delete_def)
  show ?thesis
    using j c r f unfolding q dl by simp
qed

section \<open>An update of one field\<close>

















end
